theory Spec2Isabelle
  imports Main "HOL-Library.Word" "HOL-Library.AList"
begin

section \<open>Constants and helpers of vhd-lib\<close>

text \<open>
  A shallow embedding of \<^verbatim>\<open>packages/vhd-lib/src/Vhd/VhdAbstract.js\<close>,
  \<^verbatim>\<open>packages/vhd-lib/src/Vhd/VhdFile.js\<close> and of the backup cleaner
  (\<^verbatim>\<open>cleanVm\<close>, \<^verbatim>\<open>listVhds\<close>, \<^verbatim>\<open>mergeVhdChain\<close>).

  Buffers are lists of bytes, a thrown exception is the \<open>Inl\<close> branch of a sum, and the
  file behind a \<^verbatim>\<open>VhdFile\<close> is a byte-addressed function with a size.
\<close>

type_synonym byte = "8 word"
type_synonym buffer = "byte list"

datatype error =
    AssertionError
  | RangeError
  | NoSuchBlock nat
  | TypeError
  | BitmapLengthError nat
  | IoError

text \<open>
  Modelled from the spec: the constants of \<^verbatim>\<open>../_constants\<close>, which the sources import
  but which are not part of the files at hand (spec section 3).
\<close>

definition SECTOR_SIZE :: nat where "SECTOR_SIZE = 512"
definition FOOTER_SIZE :: nat where "FOOTER_SIZE = 512"
definition HEADER_SIZE :: nat where "HEADER_SIZE = 1024"
definition PARENT_LOCATOR_ENTRIES :: nat where "PARENT_LOCATOR_ENTRIES = 8"
definition BLOCK_UNUSED :: nat where "BLOCK_UNUSED = 4294967295"
definition PLATFORM_NONE :: nat where "PLATFORM_NONE = 0"

text \<open>
  Modelled from the spec: the helpers of \<^verbatim>\<open>./_utils\<close> (spec section 3, derived geometry):
  \<^verbatim>\<open>sectorsToBytes\<close> multiplies by the sector size, \<^verbatim>\<open>sectorsRoundUpNoZero\<close> rounds a
  byte count up to whole sectors and to at least one, \<^verbatim>\<open>computeBatSize\<close> is
  \<^verbatim>\<open>max(1, ceil(entries * 4 / 512)) * 512\<close> and \<^verbatim>\<open>BUF_BLOCK_UNUSED\<close> is the four bytes of
  \<^verbatim>\<open>BLOCK_UNUSED\<close>.
\<close>

definition sectorsToBytes :: "nat \<Rightarrow> nat" where
  "sectorsToBytes sectors = sectors * SECTOR_SIZE"

definition sectorsRoundUpNoZero :: "nat \<Rightarrow> nat" where
  "sectorsRoundUpNoZero bytes = max ((bytes + SECTOR_SIZE - 1) div SECTOR_SIZE) 1"

definition computeBatSize :: "nat \<Rightarrow> nat" where
  "computeBatSize entries = sectorsToBytes (sectorsRoundUpNoZero (entries * 4))"

definition BUF_BLOCK_UNUSED :: buffer where
  "BUF_BLOCK_UNUSED = [255, 255, 255, 255]"

text \<open>
  Node's \<^verbatim>\<open>buf.readUInt32BE(i)\<close> and \<^verbatim>\<open>buf.writeUInt32BE(value, i)\<close>: both throw a
  \<^verbatim>\<open>RangeError\<close> unless the four bytes at \<open>i\<close> lie inside the buffer, and the write also
  unless the value fits 32 bits.
\<close>

definition readUInt32BE :: "buffer \<Rightarrow> nat \<Rightarrow> error + nat" where
  "readUInt32BE buf i =
     (if i + 4 \<le> length buf
      then Inr (((unat (buf ! i) * 256 + unat (buf ! (i + 1))) * 256
                  + unat (buf ! (i + 2))) * 256 + unat (buf ! (i + 3)))
      else Inl RangeError)"

definition uint32_bytes :: "nat \<Rightarrow> buffer" where
  "uint32_bytes v =
     [of_nat (v div 16777216), of_nat (v div 65536), of_nat (v div 256), of_nat v]"

definition writeUInt32BE :: "buffer \<Rightarrow> nat \<Rightarrow> nat \<Rightarrow> error + buffer" where
  "writeUInt32BE buf v i =
     (if i + 4 \<le> length buf \<and> v < 4294967296
      then Inr (take i buf @ uint32_bytes v @ drop (i + 4) buf)
      else Inl RangeError)"

section \<open>The VHD instance\<close>

record parent_locator_entry =
  platformCode :: nat
  platformDataSpace :: nat
  platformDataLength :: nat
  platformDataOffset :: nat

text \<open>
  The unpacked header. Only the fields the file backend reads or assigns are kept apart;
  the codec (\<^verbatim>\<open>fuHeader.pack\<close>, \<^verbatim>\<open>checksumStruct\<close>) lives in \<^verbatim>\<open>../_structs\<close> and is
  the field \<open>packHeader\<close> of the instance below.
\<close>

record header =
  tableOffset :: nat
  maxTableEntries :: nat
  blockSize :: nat
  parentLocatorEntry :: "parent_locator_entry list"

text \<open>
  The file as the byte handler sees it: \<open>bytes\<close> up to \<open>fsize\<close>. \<^verbatim>\<open>handler.read\<close> returns
  fewer bytes than asked past the end of the file; \<^verbatim>\<open>handler.write\<close> extends the file and
  fills a gap with zeros.
\<close>

record vfile =
  bytes :: "nat \<Rightarrow> byte"
  fsize :: nat

definition file_read :: "vfile \<Rightarrow> nat \<Rightarrow> nat \<Rightarrow> nat \<times> buffer" where
  "file_read f start n =
     (let got = min n (fsize f - start)
      in (got, map (bytes f) [start ..< start + got] @ replicate (n - got) 0))"

definition file_write :: "vfile \<Rightarrow> buffer \<Rightarrow> nat \<Rightarrow> vfile" where
  "file_write f data offset =
     (if data = [] then f
      else \<lparr> bytes = (\<lambda>a. if offset \<le> a \<and> a < offset + length data then data ! (a - offset)
                          else if a < fsize f then bytes f a else 0),
             fsize = max (fsize f) (offset + length data) \<rparr>)"

text \<open>
  A \<^verbatim>\<open>VhdFile\<close> after \<^verbatim>\<open>readHeaderAndFooter\<close>: the header, the in-memory block allocation
  table (a byte buffer), the packed footer and header (the codec is outside the files at
  hand), the file, the log of every \<^verbatim>\<open>handler.write\<close> issued, oldest first, and the
  bytes that \<^verbatim>\<open>Buffer.allocUnsafe\<close> finds in memory it does not initialise.
\<close>

record vhd =
  vheader :: header
  blockTable :: buffer
  rawFooter :: buffer
  packHeader :: "header \<Rightarrow> buffer"
  disk :: vfile
  wlog :: "(nat \<times> buffer) list"
  garbage :: "nat \<Rightarrow> byte"

text \<open>The setter of \<^verbatim>\<open>header\<close> in \<^verbatim>\<open>VhdAbstract\<close> derives the geometry from the block size.\<close>

definition sectorsPerBlock :: "vhd \<Rightarrow> nat" where
  "sectorsPerBlock v = blockSize (vheader v) div SECTOR_SIZE"

definition sectorsOfBitmap :: "vhd \<Rightarrow> nat" where
  "sectorsOfBitmap v = sectorsRoundUpNoZero (sectorsPerBlock v div 8)"

definition fullBlockSize :: "vhd \<Rightarrow> nat" where
  "fullBlockSize v = sectorsToBytes (sectorsOfBitmap v + sectorsPerBlock v)"

definition bitmapSize :: "vhd \<Rightarrow> nat" where
  "bitmapSize v = sectorsToBytes (sectorsOfBitmap v)"

definition batSize :: "vhd \<Rightarrow> nat" where
  "batSize v = computeBatSize (maxTableEntries (vheader v))"

subsection \<open>Read functions\<close>

definition vread :: "vhd \<Rightarrow> nat \<Rightarrow> nat \<Rightarrow> error + buffer" where
  "vread v start n =
     (case file_read (disk v) start n of
        (bytesRead, buf) \<Rightarrow> if bytesRead = n then Inr buf else Inl AssertionError)"

definition getBatEntry :: "vhd \<Rightarrow> nat \<Rightarrow> error + nat" where
  "getBatEntry v blockId =
     (let i = blockId * 4
      in if i < length (blockTable v) then readUInt32BE (blockTable v) i else Inr BLOCK_UNUSED)"

definition containsBlock :: "vhd \<Rightarrow> nat \<Rightarrow> error + bool" where
  "containsBlock v ident =
     (case getBatEntry v ident of Inl e \<Rightarrow> Inl e | Inr a \<Rightarrow> Inr (a \<noteq> BLOCK_UNUSED))"

definition readBlockAllocationTable :: "vhd \<Rightarrow> error + vhd" where
  "readBlockAllocationTable v =
     (case vread v (tableOffset (vheader v)) (maxTableEntries (vheader v) * 4) of
        Inl e \<Rightarrow> Inl e
      | Inr buf \<Rightarrow> Inr (v\<lparr>blockTable := buf\<rparr>))"

record block =
  block_id :: nat
  block_bitmap :: buffer
  block_data :: "buffer option"
  block_buffer :: "buffer option"

definition readBlock :: "vhd \<Rightarrow> nat \<Rightarrow> bool \<Rightarrow> error + block" where
  "readBlock v blockId onlyBitmap =
     (case getBatEntry v blockId of
        Inl e \<Rightarrow> Inl e
      | Inr blockAddr \<Rightarrow>
          if blockAddr = BLOCK_UNUSED then Inl (NoSuchBlock blockId)
          else (case vread v (sectorsToBytes blockAddr)
                       (if onlyBitmap then bitmapSize v else fullBlockSize v) of
                  Inl e \<Rightarrow> Inl e
                | Inr buf \<Rightarrow>
                    Inr (if onlyBitmap
                         then \<lparr> block_id = blockId, block_bitmap = buf,
                                block_data = None, block_buffer = None \<rparr>
                         else \<lparr> block_id = blockId, block_bitmap = take (bitmapSize v) buf,
                                block_data = Some (drop (bitmapSize v) buf),
                                block_buffer = Some buf \<rparr>)))"

subsection \<open>Parent locators\<close>

text \<open>
  What \<^verbatim>\<open>readParentLocatorData\<close> does once its assertions have passed: \<open>None\<close> when it falls
  through and returns \<^verbatim>\<open>undefined\<close>, otherwise the read it issues, as the pair of offset
  and length. The file backend calls \<^verbatim>\<open>_read\<close>, the abstract class delegates to
  \<^verbatim>\<open>_readParentLocatorData\<close> with the same two numbers.
\<close>

definition VhdFile_readParentLocatorData :: "vhd \<Rightarrow> nat \<Rightarrow> error + (nat \<times> nat) option" where
  "VhdFile_readParentLocatorData v parentLocatorId =
     (if \<not> parentLocatorId < 8 then Inl AssertionError
      else if \<not> parentLocatorId < length (parentLocatorEntry (vheader v)) then Inl TypeError
      else let e = parentLocatorEntry (vheader v) ! parentLocatorId
           in if platformDataSpace e = 0
              then Inr (Some (platformDataOffset e, platformDataSpace e))
              else Inr None)"

definition VhdAbstract_readParentLocatorData :: "vhd \<Rightarrow> nat \<Rightarrow> error + (nat \<times> nat) option" where
  "VhdAbstract_readParentLocatorData v parentLocatorId =
     (if \<not> parentLocatorId < 8 then Inl AssertionError
      else if \<not> parentLocatorId < length (parentLocatorEntry (vheader v)) then Inl TypeError
      else let e = parentLocatorEntry (vheader v) ! parentLocatorId
           in if platformDataSpace e > 0
              then Inr (Some (platformDataOffset e, platformDataSpace e))
              else Inr None)"

subsection \<open>Bitmap helpers\<close>

text \<open>
  Modelled from the spec: \<^verbatim>\<open>../_bitmap\<close> (spec section 4.2): the bit of sector \<open>i\<close> is in byte
  \<open>i >> 3\<close> under the mask \<open>1 << (7 - (i & 7))\<close>. An index past the buffer reads
  \<^verbatim>\<open>undefined\<close>, which tests false, and a store there is dropped, as for any typed array.
\<close>

definition mapTestBit :: "buffer \<Rightarrow> nat \<Rightarrow> bool" where
  "mapTestBit m i = (i div 8 < length m \<and> bit (m ! (i div 8)) (7 - i mod 8))"

definition mapSetBit :: "buffer \<Rightarrow> nat \<Rightarrow> buffer" where
  "mapSetBit m i =
     (if i div 8 < length m then m[i div 8 := set_bit (7 - i mod 8) (m ! (i div 8))] else m)"

subsection \<open>Write functions\<close>

text \<open>
  \<^verbatim>\<open>_write\<close>: the write reaches the file and is logged. The handler is taken to succeed.
\<close>

definition vwrite :: "vhd \<Rightarrow> buffer \<Rightarrow> nat \<Rightarrow> vhd" where
  "vwrite v data offset =
     v\<lparr> disk := file_write (disk v) data offset, wlog := wlog v @ [(offset, data)] \<rparr>"

definition setBatEntry :: "vhd \<Rightarrow> nat \<Rightarrow> nat \<Rightarrow> error + vhd" where
  "setBatEntry v blk blockSector =
     (let i = blk * 4
      in case writeUInt32BE (blockTable v) blockSector i of
           Inl e \<Rightarrow> Inl e
         | Inr bt \<Rightarrow>
             Inr (vwrite (v\<lparr>blockTable := bt\<rparr>) (take 4 (drop i bt))
                    (tableOffset (vheader v) + i)))"

definition getEndOfHeaders :: "vhd \<Rightarrow> error + nat" where
  "getEndOfHeaders v =
     (if length (parentLocatorEntry (vheader v)) < PARENT_LOCATOR_ENTRIES then Inl TypeError
      else Inr (fold (\<lambda>entry end.
                        if platformCode entry \<noteq> PLATFORM_NONE
                        then max end (platformDataOffset entry
                                        + sectorsToBytes (platformDataSpace entry))
                        else end)
                  (take PARENT_LOCATOR_ENTRIES (parentLocatorEntry (vheader v)))
                  (max (FOOTER_SIZE + HEADER_SIZE) (tableOffset (vheader v) + batSize v))))"

text \<open>The loop of \<^verbatim>\<open>_getEndOfData\<close> over the block ids \<open>ids\<close>, \<open>end\<close> in sectors.\<close>

fun endOfDataLoop :: "vhd \<Rightarrow> nat list \<Rightarrow> nat \<Rightarrow> error + nat" where
  "endOfDataLoop v [] end = Inr end"
| "endOfDataLoop v (i # ids) end =
     (case getBatEntry v i of
        Inl e \<Rightarrow> Inl e
      | Inr blockAddr \<Rightarrow>
          endOfDataLoop v ids
            (if blockAddr \<noteq> BLOCK_UNUSED
             then max end (blockAddr + (sectorsOfBitmap v + sectorsPerBlock v)) else end))"

definition getEndOfData :: "vhd \<Rightarrow> error + nat" where
  "getEndOfData v =
     (case getEndOfHeaders v of
        Inl e \<Rightarrow> Inl e
      | Inr eoh \<Rightarrow>
          (case endOfDataLoop v [0 ..< maxTableEntries (vheader v)]
                  ((eoh + SECTOR_SIZE - 1) div SECTOR_SIZE) of
             Inl e \<Rightarrow> Inl e
           | Inr end \<Rightarrow> Inr (sectorsToBytes end)))"

definition createBlock :: "vhd \<Rightarrow> nat \<Rightarrow> error + (nat \<times> vhd)" where
  "createBlock v blockId =
     (case getBatEntry v blockId of
        Inl e \<Rightarrow> Inl e
      | Inr a \<Rightarrow>
          if a \<noteq> BLOCK_UNUSED then Inl AssertionError
          else (case getEndOfData v of
                  Inl e \<Rightarrow> Inl e
                | Inr eod \<Rightarrow>
                    (let blockAddr = (eod + SECTOR_SIZE - 1) div SECTOR_SIZE
                     in case setBatEntry v blockId blockAddr of
                          Inl e \<Rightarrow> Inl e
                        | Inr v' \<Rightarrow> Inr (blockAddr, v'))))"

definition writeBlockBitmap :: "vhd \<Rightarrow> nat \<Rightarrow> buffer \<Rightarrow> error + vhd" where
  "writeBlockBitmap v blockAddr bitmap =
     (if length bitmap \<noteq> bitmapSize v then Inl (BitmapLengthError (length bitmap))
      else Inr (vwrite v bitmap (sectorsToBytes blockAddr)))"

definition writeEntireBlock :: "vhd \<Rightarrow> block \<Rightarrow> error + vhd" where
  "writeEntireBlock v blk =
     (case getBatEntry v (block_id blk) of
        Inl e \<Rightarrow> Inl e
      | Inr a \<Rightarrow>
          (case (if a = BLOCK_UNUSED then createBlock v (block_id blk) else Inr (a, v)) of
             Inl e \<Rightarrow> Inl e
           | Inr (blockAddr, v') \<Rightarrow>
               (case block_buffer blk of
                  None \<Rightarrow> Inl AssertionError
                | Some buf \<Rightarrow> Inr (vwrite v' buf (sectorsToBytes blockAddr)))))"

text \<open>
  \<^verbatim>\<open>_writeBlockSectors\<close> sets the bits in the buffer it is given, so the caller sees them
  afterwards; when it allocates the block it works on a fresh zeroed buffer instead and the
  caller's is untouched. The second component of the result is the caller's buffer after
  the call.
\<close>

definition writeBlockSectors ::
  "vhd \<Rightarrow> block \<Rightarrow> nat \<Rightarrow> nat \<Rightarrow> buffer option \<Rightarrow> error + (vhd \<times> buffer option)" where
  "writeBlockSectors v blk beginSectorId endSectorId parentBitmap =
     (case getBatEntry v (block_id blk) of
        Inl e \<Rightarrow> Inl e
      | Inr a \<Rightarrow>
          (case (if a = BLOCK_UNUSED
                 then (case createBlock v (block_id blk) of
                         Inl e \<Rightarrow> Inl e
                       | Inr (blockAddr, v') \<Rightarrow>
                           Inr (blockAddr, v', replicate (bitmapSize v') 0, False))
                 else (case parentBitmap of
                         None \<Rightarrow>
                           (case readBlock v (block_id blk) True of
                              Inl e \<Rightarrow> Inl e
                            | Inr b \<Rightarrow> Inr (a, v, block_bitmap b, False))
                       | Some pb \<Rightarrow> Inr (a, v, pb, True))) of
             Inl e \<Rightarrow> Inl e
           | Inr (blockAddr, v', pb, shared) \<Rightarrow>
               (let offset = blockAddr + sectorsOfBitmap v' + beginSectorId;
                    pb' = fold (\<lambda>i m. mapSetBit m i) [beginSectorId ..< endSectorId] pb
                in case writeBlockBitmap v' blockAddr pb' of
                     Inl e \<Rightarrow> Inl e
                   | Inr v'' \<Rightarrow>
                       (case block_data blk of
                          None \<Rightarrow> Inl TypeError
                        | Some data \<Rightarrow>
                            Inr (vwrite v''
                                   (take (sectorsToBytes endSectorId - sectorsToBytes beginSectorId)
                                      (drop (sectorsToBytes beginSectorId) data))
                                   (sectorsToBytes offset),
                                 if shared then Some pb' else parentBitmap)))))"

subsection \<open>Coalescing a block of a child\<close>

text \<open>The inner \<^verbatim>\<open>while\<close> of \<^verbatim>\<open>coalesceBlock\<close>, "count changed sectors".\<close>

function countChanged :: "buffer \<Rightarrow> nat \<Rightarrow> nat \<Rightarrow> nat" where
  "countChanged bitmap spb endSector =
     (if endSector < spb \<and> mapTestBit bitmap endSector
      then countChanged bitmap spb (endSector + 1) else endSector)"
  by pat_completeness auto
termination
  by (relation "measure (\<lambda>(bitmap, spb, endSector). spb - endSector)") auto

declare countChanged.simps [simp del]

lemma countChanged_ge: "e \<le> countChanged bm spb e"
proof (induction bm spb e rule: countChanged.induct)
  case (1 bitmap spb endSector)
  then show ?case by (subst countChanged.simps) auto
qed

text \<open>
  What \<^verbatim>\<open>coalesceBlock\<close> does with one run \<open>[i, endSector)\<close> of set bits: the whole block
  is written when the run covers it, otherwise this VHD's bitmap of the block is read
  unless a previous run has read it already (\<open>parentBitmap\<close> is \<open>None\<close> while it is
  \<^verbatim>\<open>null\<close>) and the sectors of the run are written.
\<close>

definition coalesceRun ::
  "vhd \<Rightarrow> block \<Rightarrow> nat \<Rightarrow> nat \<Rightarrow> nat \<Rightarrow> buffer option \<Rightarrow> error + (vhd \<times> buffer option)" where
  "coalesceRun v blk spb i endSector parentBitmap =
     (let isFullBlock = (i = 0 \<and> endSector = spb)
      in if isFullBlock
         then (case writeEntireBlock v blk of
                 Inl e \<Rightarrow> Inl e
               | Inr v' \<Rightarrow> Inr (v', parentBitmap))
         else (case (case parentBitmap of
                       None \<Rightarrow>
                         (case readBlock v (block_id blk) True of
                            Inl e \<Rightarrow> Inl e
                          | Inr b \<Rightarrow> Inr (block_bitmap b))
                     | Some pb \<Rightarrow> Inr pb) of
                 Inl e \<Rightarrow> Inl e
               | Inr pb \<Rightarrow> writeBlockSectors v blk i endSector (Some pb)))"

text \<open>
  The \<^verbatim>\<open>for\<close> loop of \<^verbatim>\<open>coalesceBlock\<close> from sector \<open>i\<close> on. After a run the loop sets
  \<open>i = endSector\<close> and the loop header increments it.
\<close>

function coalesceLoop ::
  "vhd \<Rightarrow> block \<Rightarrow> nat \<Rightarrow> nat \<Rightarrow> buffer option \<Rightarrow> error + vhd" where
  "coalesceLoop v blk spb i parentBitmap =
     (if \<not> i < spb then Inr v
      else if \<not> mapTestBit (block_bitmap blk) i then coalesceLoop v blk spb (i + 1) parentBitmap
      else (case coalesceRun v blk spb i (countChanged (block_bitmap blk) spb (i + 1))
                   parentBitmap of
              Inl e \<Rightarrow> Inl e
            | Inr (v', pb') \<Rightarrow>
                coalesceLoop v' blk spb (countChanged (block_bitmap blk) spb (i + 1) + 1) pb'))"
  by pat_completeness auto
termination
proof (relation "measure (\<lambda>(v, blk, spb, i, parentBitmap). spb - i)", goal_cases)
  case (3 v blk spb i parentBitmap x y)
  have "i + 1 \<le> countChanged (block_bitmap blk) spb (i + 1)"
    by (rule countChanged_ge)
  with 3 show ?case by simp
qed auto

declare coalesceLoop.simps [simp del]

text \<open>
  \<^verbatim>\<open>coalesceBlock(child, blockId)\<close> on this VHD \<open>v\<close>: the child's block is read whole, the
  loop runs with the child's \<open>sectorsPerBlock\<close>, and the length of the child's data is
  returned.
\<close>

definition coalesceBlock :: "vhd \<Rightarrow> vhd \<Rightarrow> nat \<Rightarrow> error + (nat \<times> vhd)" where
  "coalesceBlock v child blockId =
     (case readBlock child blockId False of
        Inl e \<Rightarrow> Inl e
      | Inr blk \<Rightarrow>
          (case coalesceLoop v blk (sectorsPerBlock child) 0 None of
             Inl e \<Rightarrow> Inl e
           | Inr v' \<Rightarrow>
               (case block_data blk of
                  None \<Rightarrow> Inl TypeError
                | Some data \<Rightarrow> Inr (length data, v'))))"

text \<open>The number of bytes handed to \<^verbatim>\<open>handler.write\<close> so far.\<close>

definition writtenBytes :: "vhd \<Rightarrow> nat" where
  "writtenBytes v = sum_list (map (\<lambda>(offset, data). length data) (wlog v))"


subsection \<open>Footer, header and growth of the block allocation table\<close>

text \<open>
  \<^verbatim>\<open>writeFooter\<close>: the packed footer goes to \<^verbatim>\<open>max(endOfData, eof - length)\<close>, and to byte 0
  as well unless only the end footer is asked. \<^verbatim>\<open>writeHeader\<close> writes the packed header at
  \<^verbatim>\<open>FOOTER_SIZE\<close>.
\<close>

definition writeFooter :: "vhd \<Rightarrow> bool \<Rightarrow> error + vhd" where
  "writeFooter v onlyEndFooter =
     (case getEndOfData v of
        Inl e \<Rightarrow> Inl e
      | Inr eod \<Rightarrow>
          (let eof = fsize (disk v);
               offset = max eod (eof - length (rawFooter v));
               v1 = (if \<not> onlyEndFooter then vwrite v (rawFooter v) 0 else v)
           in Inr (vwrite v1 (rawFooter v) offset)))"

definition writeHeader :: "vhd \<Rightarrow> vhd" where
  "writeHeader v = vwrite v (packHeader v (vheader v)) FOOTER_SIZE"

text \<open>
  Modelled from the spec: \<^verbatim>\<open>../_getFirstAndLastBlocks\<close> (spec section 4.4.6) gives the block
  with the smallest sector address, that address, and the largest sector address among the
  allocated entries of the table, and \<^verbatim>\<open>undefined\<close> when no entry is allocated.
\<close>

definition entryAt :: "buffer \<Rightarrow> nat \<Rightarrow> nat" where
  "entryAt bat i = (case readUInt32BE bat (i * 4) of Inl e \<Rightarrow> BLOCK_UNUSED | Inr a \<Rightarrow> a)"

definition getFirstAndLastBlocks :: "buffer \<Rightarrow> (nat \<times> nat \<times> nat) option" where
  "getFirstAndLastBlocks bat =
     (case filter (\<lambda>i. entryAt bat i \<noteq> BLOCK_UNUSED) [0 ..< length bat div 4] of
        [] \<Rightarrow> None
      | i0 # rest \<Rightarrow>
          Some (fold (\<lambda>i (first, firstSector, lastSector).
                        (if entryAt bat i < firstSector then i else first,
                         min firstSector (entryAt bat i),
                         max lastSector (entryAt bat i)))
                  rest (i0, entryAt bat i0, entryAt bat i0)))"

text \<open>
  One round of \<^verbatim>\<open>_freeFirstBlockSpace\<close>: \<open>None\<close> when nothing has to move, otherwise the
  instance after the first block has been copied behind the last one, its entry updated
  and the end footer rewritten.
\<close>

definition relocateFirstBlock :: "vhd \<Rightarrow> nat \<Rightarrow> error + vhd option" where
  "relocateFirstBlock v spaceNeededBytes =
     (case getFirstAndLastBlocks (blockTable v) of
        None \<Rightarrow> Inr None
      | Some (first, firstSector, lastSector) \<Rightarrow>
          (let tableOffset = tableOffset (vheader v);
               newMinSector =
                 (tableOffset + batSize v + spaceNeededBytes + SECTOR_SIZE - 1) div SECTOR_SIZE
           in if tableOffset + batSize v + spaceNeededBytes \<ge> sectorsToBytes firstSector
              then (let newFirstSector =
                          max (lastSector + fullBlockSize v div SECTOR_SIZE) newMinSector
                    in case vread v (sectorsToBytes firstSector) (fullBlockSize v) of
                         Inl e \<Rightarrow> Inl e
                       | Inr blk \<Rightarrow>
                           (case setBatEntry (vwrite v blk (sectorsToBytes newFirstSector))
                                   first newFirstSector of
                              Inl e \<Rightarrow> Inl e
                            | Inr v2 \<Rightarrow>
                                (case writeFooter v2 True of
                                   Inl e \<Rightarrow> Inl e
                                 | Inr v3 \<Rightarrow> Inr (Some v3))))
              else Inr None))"

lemma fullBlockSize_pos: "0 < fullBlockSize v"
  by (simp add: fullBlockSize_def sectorsToBytes_def sectorsOfBitmap_def
        sectorsRoundUpNoZero_def SECTOR_SIZE_def max_def)

function freeFirstBlockSpace :: "vhd \<Rightarrow> nat \<Rightarrow> error + vhd" where
  "freeFirstBlockSpace v spaceNeededBytes =
     (case relocateFirstBlock v spaceNeededBytes of
        Inl e \<Rightarrow> Inl e
      | Inr None \<Rightarrow> Inr v
      | Inr (Some v3) \<Rightarrow>
          if spaceNeededBytes > fullBlockSize v3
          then freeFirstBlockSpace v3 (spaceNeededBytes - fullBlockSize v3)
          else Inr v3)"
  by pat_completeness auto
termination
  by (relation "measure (\<lambda>(v, spaceNeededBytes). spaceNeededBytes)")
     (use fullBlockSize_pos in auto)

declare freeFirstBlockSpace.simps [simp del]




text \<open>
  \<^verbatim>\<open>ensureBatSize\<close>. The new table is allocated uninitialised, the old one copied into it
  and everything from byte \<open>prevMaxTableEntries * 4\<close> on filled with \<^verbatim>\<open>BUF_BLOCK_UNUSED\<close>.
  The buffer written to the file is \<^verbatim>\<open>Buffer.alloc(maxTableEntries - prevMaxTableEntries,
  BUF_BLOCK_UNUSED)\<close>: that many bytes.
\<close>

definition ensureBatSize :: "vhd \<Rightarrow> nat \<Rightarrow> error + vhd" where
  "ensureBatSize v entries =
     (let prevMaxTableEntries = maxTableEntries (vheader v)
      in if prevMaxTableEntries \<ge> entries then Inr v
         else (let newBatSize = computeBatSize entries
               in case freeFirstBlockSpace v (newBatSize - batSize v) of
                    Inl e \<Rightarrow> Inl e
                  | Inr v1 \<Rightarrow>
                      (let prevBat = blockTable v1;
                           copied = take newBatSize prevBat;
                           unsafe = copied @ map (garbage v1) [length copied ..< newBatSize];
                           bat = take (prevMaxTableEntries * 4) unsafe
                                 @ replicate (newBatSize - prevMaxTableEntries * 4) 255;
                           v2 = v1\<lparr> vheader := (vheader v1)\<lparr>maxTableEntries := entries\<rparr>,
                                    blockTable := bat \<rparr>;
                           v3 = vwrite v2 (replicate (entries - prevMaxTableEntries) 255)
                                  (tableOffset (vheader v2) + length prevBat)
                       in Inr (writeHeader v3))))"

subsection \<open>Writing data\<close>

text \<open>
  One round of the loop of \<^verbatim>\<open>writeData\<close>. The block handed to \<^verbatim>\<open>_writeBlockSectors\<close> has
  an id and data only. \<open>sectorsPerBlock\<close> is taken positive; the subtractions the source
  guards with \<^verbatim>\<open>Math.max(0, ...)\<close> are the truncating ones.
\<close>

definition writeDataBlock :: "vhd \<Rightarrow> nat \<Rightarrow> buffer \<Rightarrow> nat \<Rightarrow> error + vhd" where
  "writeDataBlock v offsetSectors buf currentBlock =
     (let spb = sectorsPerBlock v;
          bufferSizeSectors = (length buf + SECTOR_SIZE - 1) div SECTOR_SIZE;
          endBufferSectors = offsetSectors + bufferSizeSectors;
          blockSizeBytes = spb * SECTOR_SIZE;
          offsetInBlockSectors = offsetSectors - currentBlock * spb;
          endInBlockSectors = min (endBufferSectors - currentBlock * spb) spb;
          startInBuffer = (currentBlock * spb - offsetSectors) * SECTOR_SIZE;
          endInBuffer = min (((currentBlock + 1) * spb - offsetSectors) * SECTOR_SIZE) (length buf);
          slice = take (endInBuffer - startInBuffer) (drop startInBuffer buf);
          inputBuffer =
            (if offsetInBlockSectors = 0 \<and> endInBlockSectors = spb then slice
             else take blockSizeBytes
                    (replicate (offsetInBlockSectors * SECTOR_SIZE) 0 @ slice
                       @ replicate blockSizeBytes 0))
      in case writeBlockSectors v
                \<lparr> block_id = currentBlock, block_bitmap = [], block_data = Some inputBuffer,
                  block_buffer = None \<rparr>
                offsetInBlockSectors endInBlockSectors None of
           Inl e \<Rightarrow> Inl e
         | Inr (v', pb) \<Rightarrow> Inr v')"

fun writeDataLoop :: "vhd \<Rightarrow> nat \<Rightarrow> buffer \<Rightarrow> nat list \<Rightarrow> error + vhd" where
  "writeDataLoop v offsetSectors buf [] = Inr v"
| "writeDataLoop v offsetSectors buf (currentBlock # blocks) =
     (case writeDataBlock v offsetSectors buf currentBlock of
        Inl e \<Rightarrow> Inl e
      | Inr v' \<Rightarrow> writeDataLoop v' offsetSectors buf blocks)"

text \<open>
  \<^verbatim>\<open>writeData\<close>: \<open>lastBlock\<close> is \<^verbatim>\<open>ceil(endBufferSectors / sectorsPerBlock) - 1\<close>, the table is
  grown with \<^verbatim>\<open>ensureBatSize(lastBlock)\<close>, the blocks \<open>startBlock .. lastBlock\<close> are written
  in turn and both footers rewritten.
\<close>

definition writeData :: "vhd \<Rightarrow> nat \<Rightarrow> buffer \<Rightarrow> error + vhd" where
  "writeData v offsetSectors buf =
     (let spb = sectorsPerBlock v;
          bufferSizeSectors = (length buf + SECTOR_SIZE - 1) div SECTOR_SIZE;
          startBlock = offsetSectors div spb;
          endBufferSectors = offsetSectors + bufferSizeSectors;
          lastBlockSucc = (endBufferSectors + spb - 1) div spb
      in case ensureBatSize v (lastBlockSucc - 1) of
           Inl e \<Rightarrow> Inl e
         | Inr v1 \<Rightarrow>
             (case writeDataLoop v1 offsetSectors buf [startBlock ..< lastBlockSucc] of
                Inl e \<Rightarrow> Inl e
              | Inr v2 \<Rightarrow> writeFooter v2 False))"

section \<open>Concrete instances\<close>

definition no_locator :: parent_locator_entry where
  "no_locator = \<lparr> platformCode = 0, platformDataSpace = 0,
                   platformDataLength = 0, platformDataOffset = 0 \<rparr>"

text \<open>
  A dynamic VHD of one block of one sector: table at byte 1536 with a single unused slot,
  no data block yet.
\<close>

definition vhd1 :: vhd where
  "vhd1 = \<lparr> vheader = \<lparr> tableOffset = 1536, maxTableEntries = 1, blockSize = 512,
                          parentLocatorEntry = replicate 8 no_locator \<rparr>,
             blockTable = [], rawFooter = replicate 512 0,
             packHeader = (\<lambda>h. replicate 1024 0),
             disk = \<lparr> bytes = (\<lambda>a. if 1536 \<le> a \<and> a < 1540 then 255 else 0),
                      fsize = 2560 \<rparr>,
             wlog = [], garbage = (\<lambda>a. 0) \<rparr>"

text \<open>\<open>vhd1\<close> once its block allocation table has been read.\<close>

definition parent0 :: vhd where
  "parent0 = vhd1\<lparr>blockTable := [255, 255, 255, 255]\<rparr>"

text \<open>
  A differencing child of one block of one sector, allocated at sector 4, whose bitmap has
  no bit set.
\<close>

definition child0 :: vhd where
  "child0 = \<lparr> vheader = \<lparr> tableOffset = 1536, maxTableEntries = 1, blockSize = 512,
                          parentLocatorEntry = replicate 8 no_locator \<rparr>,
             blockTable = [0, 0, 0, 4], rawFooter = replicate 512 0,
             packHeader = (\<lambda>h. replicate 1024 0),
             disk = \<lparr> bytes = (\<lambda>a. 0), fsize = 3584 \<rparr>,
             wlog = [], garbage = (\<lambda>a. 0) \<rparr>"

text \<open>
  Two sectors per block: a parent without block 0, and a child whose block 0 has sector 0
  only (bitmap byte \<open>0x80\<close>, the sector filled with \<open>0x22\<close>).
\<close>

definition parent2 :: vhd where
  "parent2 = \<lparr> vheader = \<lparr> tableOffset = 1536, maxTableEntries = 1, blockSize = 1024,
                          parentLocatorEntry = replicate 8 no_locator \<rparr>,
             blockTable = [255, 255, 255, 255], rawFooter = replicate 512 0,
             packHeader = (\<lambda>h. replicate 1024 0),
             disk = \<lparr> bytes = (\<lambda>a. if 1536 \<le> a \<and> a < 2048 then 255 else 0), fsize = 2560 \<rparr>,
             wlog = [], garbage = (\<lambda>a. 0) \<rparr>"

definition child2 :: vhd where
  "child2 = \<lparr> vheader = \<lparr> tableOffset = 1536, maxTableEntries = 1, blockSize = 1024,
                          parentLocatorEntry = replicate 8 no_locator \<rparr>,
             blockTable = [0, 0, 0, 4], rawFooter = replicate 512 0,
             packHeader = (\<lambda>h. replicate 1024 0),
             disk = \<lparr> bytes = (\<lambda>a. if a = 2048 then 128 else if 2560 \<le> a \<and> a < 3072 then 34 else 0),
                      fsize = 4096 \<rparr>,
             wlog = [], garbage = (\<lambda>a. 0) \<rparr>"

text \<open>
  A VHD of one table entry whose only block sits right behind the table, at sector 4: the
  table cannot grow without the block moving. The table in the file is the entry and its
  padding of \<open>0xFF\<close> up to the sector boundary; the block has sector 0 set in its bitmap.
\<close>

definition vhdR :: vhd where
  "vhdR = \<lparr> vheader = \<lparr> tableOffset = 1536, maxTableEntries = 1, blockSize = 512,
                          parentLocatorEntry = replicate 8 no_locator \<rparr>,
             blockTable = [0, 0, 0, 4], rawFooter = replicate 512 0,
             packHeader = (\<lambda>h. replicate 1024 0),
             disk = \<lparr> bytes = (\<lambda>a. if a = 1539 then 4
                                   else if 1540 \<le> a \<and> a < 2048 then 255
                                   else if a = 2048 then 128
                                   else if 2560 \<le> a \<and> a < 3072 then 17 else 0),
                      fsize = 3584 \<rparr>,
             wlog = [], garbage = (\<lambda>a. 0) \<rparr>"

text \<open>
  The header of \<open>vhdR\<close> over a file cut short: the table entry in the file points at
  sector 6, and the file ends at byte 3584, in the middle of that block.
\<close>

definition vhdT :: vhd where
  "vhdT = \<lparr> vheader = \<lparr> tableOffset = 1536, maxTableEntries = 1, blockSize = 512,
                          parentLocatorEntry = replicate 8 no_locator \<rparr>,
             blockTable = [], rawFooter = replicate 512 0,
             packHeader = (\<lambda>h. replicate 1024 0),
             disk = \<lparr> bytes = (\<lambda>a. if a = 1539 then 6
                                   else if 1540 \<le> a \<and> a < 2048 then 255 else 0),
                      fsize = 3584 \<rparr>,
             wlog = [], garbage = (\<lambda>a. 0) \<rparr>"


section \<open>Verified properties\<close>

subsection \<open>Reading blocks\<close>

lemma vread_in_range:
  "n \<le> fsize (disk v) - start \<Longrightarrow> vread v start n = Inr (map (bytes (disk v)) [start ..< start + n])"
  by (simp add: vread_def file_read_def Let_def min_def)

lemma vread_Inr_length: "vread v start n = Inr buf \<Longrightarrow> length buf = n"
  by (auto simp: vread_def file_read_def Let_def split: if_splits)

lemma readBlockAllocationTable_length:
  "readBlockAllocationTable v0 = Inr v \<Longrightarrow> length (blockTable v) = maxTableEntries (vheader v0) * 4"
  by (auto simp: readBlockAllocationTable_def dest: vread_Inr_length split: sum.splits)

lemma getBatEntry_total:
  "length (blockTable v) mod 4 = 0 \<Longrightarrow> \<exists>a. getBatEntry v blockId = Inr a"
  unfolding getBatEntry_def readUInt32BE_def Let_def
  by auto

lemma bitmapSize_le_fullBlockSize: "bitmapSize v \<le> fullBlockSize v"
  by (simp add: bitmapSize_def fullBlockSize_def sectorsToBytes_def)

text \<open>
  Claim C8. Once the block allocation table has been read, \<^verbatim>\<open>_getBatEntry\<close> never throws
  and answers \<^verbatim>\<open>BLOCK_UNUSED\<close> for a slot beyond the in-memory table; \<^verbatim>\<open>readBlock\<close> fails
  with "no such block" exactly when the entry is \<^verbatim>\<open>BLOCK_UNUSED\<close>. Otherwise it reads
  \<open>bitmapSize\<close> bytes (only the bitmap asked) or \<open>fullBlockSize\<close> bytes at byte
  \<open>entry * 512\<close>: when those bytes lie inside the file it returns the id with the bitmap
  (and, unless only the bitmap is asked, the data and the whole buffer) read there, and when
  they do not, the assertion of \<^verbatim>\<open>_read\<close> on the number of bytes read fails.
  \<^verbatim>\<open>containsBlock\<close> returns a boolean and never fails.
\<close>

theorem readBlock_fails_iff_unused:
  assumes "readBlockAllocationTable v0 = Inr v"
  shows "(\<exists>a. getBatEntry v blockId = Inr a)
       \<and> (length (blockTable v) \<le> blockId * 4 \<longrightarrow> getBatEntry v blockId = Inr BLOCK_UNUSED)
       \<and> (readBlock v blockId onlyBitmap = Inl (NoSuchBlock blockId)
            \<longleftrightarrow> getBatEntry v blockId = Inr BLOCK_UNUSED)
       \<and> (\<forall>a. getBatEntry v blockId = Inr a \<and> a \<noteq> BLOCK_UNUSED
               \<and> (if onlyBitmap then bitmapSize v else fullBlockSize v) \<le> fsize (disk v) - a * 512
            \<longrightarrow> readBlock v blockId onlyBitmap =
                  Inr \<lparr> block_id = blockId,
                        block_bitmap = map (bytes (disk v)) [a * 512 ..< a * 512 + bitmapSize v],
                        block_data = (if onlyBitmap then None
                           else Some (map (bytes (disk v))
                                  [a * 512 + bitmapSize v ..< a * 512 + fullBlockSize v])),
                        block_buffer = (if onlyBitmap then None
                           else Some (map (bytes (disk v))
                                  [a * 512 ..< a * 512 + fullBlockSize v])) \<rparr>)
       \<and> (\<forall>a. getBatEntry v blockId = Inr a \<and> a \<noteq> BLOCK_UNUSED
               \<and> \<not> (if onlyBitmap then bitmapSize v else fullBlockSize v) \<le> fsize (disk v) - a * 512
            \<longrightarrow> readBlock v blockId onlyBitmap = Inl AssertionError)
       \<and> containsBlock v blockId = Inr (getBatEntry v blockId \<noteq> Inr BLOCK_UNUSED)"
proof -
  have len: "length (blockTable v) mod 4 = 0"
    using readBlockAllocationTable_length [OF assms] by simp
  from getBatEntry_total [OF len] obtain a where a: "getBatEntry v blockId = Inr a" by blast
  have c1: "length (blockTable v) \<le> blockId * 4 \<longrightarrow> getBatEntry v blockId = Inr BLOCK_UNUSED"
    by (simp add: getBatEntry_def)
  have c2: "readBlock v blockId onlyBitmap = Inl (NoSuchBlock blockId)
            \<longleftrightarrow> getBatEntry v blockId = Inr BLOCK_UNUSED"
    using a by (auto simp: readBlock_def vread_def split: sum.splits prod.splits)
  have c3: "readBlock v blockId onlyBitmap =
                  Inr \<lparr> block_id = blockId,
                        block_bitmap = map (bytes (disk v)) [a * 512 ..< a * 512 + bitmapSize v],
                        block_data = (if onlyBitmap then None
                           else Some (map (bytes (disk v))
                                  [a * 512 + bitmapSize v ..< a * 512 + fullBlockSize v])),
                        block_buffer = (if onlyBitmap then None
                           else Some (map (bytes (disk v))
                                  [a * 512 ..< a * 512 + fullBlockSize v])) \<rparr>"
    if "a \<noteq> BLOCK_UNUSED"
      and "(if onlyBitmap then bitmapSize v else fullBlockSize v) \<le> fsize (disk v) - a * 512"
    using that a bitmapSize_le_fullBlockSize [of v]
    by (simp add: readBlock_def vread_in_range sectorsToBytes_def SECTOR_SIZE_def
          take_map drop_map)
  have c5: "readBlock v blockId onlyBitmap = Inl AssertionError"
    if "a \<noteq> BLOCK_UNUSED"
      and "\<not> (if onlyBitmap then bitmapSize v else fullBlockSize v) \<le> fsize (disk v) - a * 512"
    using that a
    by (simp add: readBlock_def vread_def file_read_def sectorsToBytes_def SECTOR_SIZE_def
          Let_def min_def)
  have c4: "containsBlock v blockId = Inr (getBatEntry v blockId \<noteq> Inr BLOCK_UNUSED)"
    using a by (simp add: containsBlock_def)
  show ?thesis using a c1 c2 c3 c4 c5 by auto
qed

lemma vhdR_table_read: "readBlockAllocationTable vhdR = Inr vhdR"
  by (simp add: readBlockAllocationTable_def vread_in_range vhdR_def)

theorem readBlock_fails_iff_unused_witness:
  "readBlockAllocationTable vhdR = Inr vhdR
   \<and> getBatEntry vhdR 0 = Inr 4
   \<and> readBlock vhdR 0 False =
       Inr \<lparr> block_id = 0,
             block_bitmap = map (bytes (disk vhdR)) [2048 ..< 2560],
             block_data = Some (map (bytes (disk vhdR)) [2560 ..< 3072]),
             block_buffer = Some (map (bytes (disk vhdR)) [2048 ..< 3072]) \<rparr>
   \<and> containsBlock vhdR 0 = Inr True
   \<and> getBatEntry vhdR 1 = Inr BLOCK_UNUSED
   \<and> readBlock vhdR 1 False = Inl (NoSuchBlock 1)
   \<and> containsBlock vhdR 1 = Inr False"
proof -
  have g0: "getBatEntry vhdR 0 = Inr 4"
    by (simp add: getBatEntry_def readUInt32BE_def vhdR_def)
  have g1: "getBatEntry vhdR 1 = Inr BLOCK_UNUSED"
    by (simp add: getBatEntry_def vhdR_def)
  have geo: "bitmapSize vhdR = 512" "fullBlockSize vhdR = 1024" "fsize (disk vhdR) = 3584"
    by (simp_all add: bitmapSize_def fullBlockSize_def sectorsOfBitmap_def sectorsPerBlock_def
          sectorsRoundUpNoZero_def sectorsToBytes_def SECTOR_SIZE_def vhdR_def)
  have ne: "(4::nat) \<noteq> BLOCK_UNUSED" by (simp add: BLOCK_UNUSED_def)
  show ?thesis
    using readBlock_fails_iff_unused [OF vhdR_table_read, of 0 False]
      readBlock_fails_iff_unused [OF vhdR_table_read, of 1 False] g0 g1 geo ne
      vhdR_table_read
    by (simp del: upt_rec_numeral)
qed

text \<open>
  The claim as first stated, without the condition on the file, does not hold: in a file of
  3584 bytes whose table entry 0 is sector 6, block 0 is there for \<^verbatim>\<open>containsBlock\<close>, the
  entry is not \<^verbatim>\<open>BLOCK_UNUSED\<close>, and \<^verbatim>\<open>readBlock\<close> returns no block: the 1024 bytes at
  byte 3072 end past the file and \<^verbatim>\<open>_read\<close> throws.
\<close>

theorem readBlock_truncated_file_counterexample:
  "\<exists>v. readBlockAllocationTable vhdT = Inr v
       \<and> getBatEntry v 0 = Inr 6
       \<and> 6 \<noteq> BLOCK_UNUSED
       \<and> containsBlock v 0 = Inr True
       \<and> readBlock v 0 False = Inl AssertionError"
proof -
  have h: "readBlockAllocationTable vhdT = Inr (vhdT\<lparr>blockTable := [0, 0, 0, 6]\<rparr>)"
    by (simp add: readBlockAllocationTable_def vread_in_range vhdT_def)
  have g: "getBatEntry (vhdT\<lparr>blockTable := [0, 0, 0, 6]\<rparr>) 0 = Inr 6"
    by (simp add: getBatEntry_def readUInt32BE_def)
  have ne: "(6::nat) \<noteq> BLOCK_UNUSED" by (simp add: BLOCK_UNUSED_def)
  have c: "containsBlock (vhdT\<lparr>blockTable := [0, 0, 0, 6]\<rparr>) 0 = Inr True"
    using g ne by (simp add: containsBlock_def)
  have r: "readBlock (vhdT\<lparr>blockTable := [0, 0, 0, 6]\<rparr>) 0 False = Inl AssertionError"
    using g ne
    by (simp add: readBlock_def vread_def file_read_def fullBlockSize_def sectorsOfBitmap_def
          sectorsPerBlock_def sectorsRoundUpNoZero_def sectorsToBytes_def SECTOR_SIZE_def
          vhdT_def Let_def del: upt_rec_numeral)
  show ?thesis using h g ne c r by blast
qed

subsection \<open>Parent locator data\<close>

text \<open>
  Claim C6. For a locator id below 8 of a loaded header, the file backend's
  \<^verbatim>\<open>readParentLocatorData\<close> issues its read exactly when \<open>platformDataSpace\<close> is 0, the
  abstract class delegates a read exactly when \<open>platformDataSpace\<close> is positive: one returns
  a read where the other returns \<^verbatim>\<open>undefined\<close>, and the two never agree.
\<close>

theorem readParentLocatorData_complementary:
  assumes "i < PARENT_LOCATOR_ENTRIES"
    and "length (parentLocatorEntry (vheader v)) = PARENT_LOCATOR_ENTRIES"
  shows "VhdFile_readParentLocatorData v i =
           (let e = parentLocatorEntry (vheader v) ! i
            in if platformDataSpace e = 0 then Inr (Some (platformDataOffset e, 0)) else Inr None)
       \<and> VhdAbstract_readParentLocatorData v i =
           (let e = parentLocatorEntry (vheader v) ! i
            in if platformDataSpace e > 0
               then Inr (Some (platformDataOffset e, platformDataSpace e)) else Inr None)
       \<and> ((\<exists>r. VhdFile_readParentLocatorData v i = Inr (Some r))
            \<longleftrightarrow> \<not> (\<exists>r. VhdAbstract_readParentLocatorData v i = Inr (Some r)))
       \<and> VhdFile_readParentLocatorData v i \<noteq> VhdAbstract_readParentLocatorData v i"
  using assms
  by (auto simp: VhdFile_readParentLocatorData_def VhdAbstract_readParentLocatorData_def
        PARENT_LOCATOR_ENTRIES_def Let_def)

theorem readParentLocatorData_complementary_witness:
  "VhdFile_readParentLocatorData vhd1 0 = Inr (Some (0, 0))
   \<and> VhdAbstract_readParentLocatorData vhd1 0 = Inr None"
  using readParentLocatorData_complementary [of 0 vhd1]
  by (simp add: vhd1_def no_locator_def PARENT_LOCATOR_ENTRIES_def)

subsection \<open>Coalescing\<close>

lemma coalesceLoop_no_bits:
  "(\<And>j. i \<le> j \<Longrightarrow> j < spb \<Longrightarrow> \<not> mapTestBit (block_bitmap blk) j)
   \<Longrightarrow> coalesceLoop v blk spb i pb = Inr v"
proof (induction "spb - i" arbitrary: i)
  case 0
  then show ?case by (subst coalesceLoop.simps) simp
next
  case (Suc k)
  then have "coalesceLoop v blk spb (i + 1) pb = Inr v" by simp
  with Suc.prems [of i] Suc.hyps(2) show ?case
    by (subst coalesceLoop.simps) simp
qed

lemma readBlock_full_data_length:
  assumes "readBlock c blockId False = Inr blk"
  shows "\<exists>data. block_data blk = Some data \<and> length data = sectorsToBytes (sectorsPerBlock c)"
  using assms
  by (auto simp: readBlock_def fullBlockSize_def bitmapSize_def sectorsToBytes_def
        add_mult_distrib
      dest!: vread_Inr_length split: sum.splits if_splits)

text \<open>
  Claim C4, as amended. Whenever \<^verbatim>\<open>coalesceBlock\<close> returns, what it returns is the length of
  the child's block data, \<open>sectorsPerBlock * 512\<close> of the child, whatever was written; and
  for a child block without any bit set among its sectors it returns that number and leaves
  this VHD, its file and its write log as they were.
\<close>

theorem coalesceBlock_returns_child_data_length:
  "(coalesceBlock v child blockId = Inr (n, v')
      \<longrightarrow> n = sectorsToBytes (sectorsPerBlock child))
   \<and> (readBlock child blockId False = Inr blk
        \<and> (\<forall>j < sectorsPerBlock child. \<not> mapTestBit (block_bitmap blk) j)
      \<longrightarrow> coalesceBlock v child blockId = Inr (sectorsToBytes (sectorsPerBlock child), v))"
proof (intro conjI impI)
  assume "coalesceBlock v child blockId = Inr (n, v')"
  then obtain blk' where r: "readBlock child blockId False = Inr blk'"
    and n: "block_data blk' = Some d \<Longrightarrow> n = length d" for d
    by (auto simp: coalesceBlock_def split: sum.splits option.splits)
  from readBlock_full_data_length [OF r] n
  show "n = sectorsToBytes (sectorsPerBlock child)" by auto
next
  assume a: "readBlock child blockId False = Inr blk
        \<and> (\<forall>j < sectorsPerBlock child. \<not> mapTestBit (block_bitmap blk) j)"
  then have "coalesceLoop v blk (sectorsPerBlock child) 0 None = Inr v"
    by (intro coalesceLoop_no_bits) simp
  with a readBlock_full_data_length [of child blockId blk]
  show "coalesceBlock v child blockId = Inr (sectorsToBytes (sectorsPerBlock child), v)"
    by (auto simp: coalesceBlock_def)
qed

lemma child0_block:
  "readBlock child0 0 False =
     Inr \<lparr> block_id = 0, block_bitmap = map (\<lambda>a. 0) [2048 ..< 2560],
           block_data = Some (map (\<lambda>a. 0) [2560 ..< 3072]),
           block_buffer = Some (map (\<lambda>a. 0) [2048 ..< 3072]) \<rparr>"
  by (simp add: readBlock_def getBatEntry_def readUInt32BE_def child0_def BLOCK_UNUSED_def
        vread_in_range sectorsToBytes_def SECTOR_SIZE_def fullBlockSize_def bitmapSize_def
        sectorsOfBitmap_def sectorsPerBlock_def sectorsRoundUpNoZero_def take_map drop_map
      del: upt_rec_numeral)

theorem coalesceBlock_returns_child_data_length_witness:
  "coalesceBlock parent0 child0 0 = Inr (512, parent0)"
proof -
  let ?B = "\<lparr> block_id = 0, block_bitmap = map (\<lambda>a. 0) [2048 ..< 2560],
           block_data = Some (map (\<lambda>a. 0) [2560 ..< 3072]),
           block_buffer = Some (map (\<lambda>a. 0) [2048 ..< 3072]) \<rparr> :: block"
  have spb: "sectorsPerBlock child0 = 1"
    by (simp add: sectorsPerBlock_def child0_def SECTOR_SIZE_def)
  have nb: "\<forall>j < sectorsPerBlock child0. \<not> mapTestBit (block_bitmap ?B) j"
    by (simp add: spb mapTestBit_def del: upt_rec_numeral)
  have "coalesceBlock parent0 child0 0 = Inr (sectorsToBytes (sectorsPerBlock child0), parent0)"
    using coalesceBlock_returns_child_data_length [of parent0 child0 0 512 parent0 ?B]
      child0_block nb by blast
  then show ?thesis by (simp add: spb sectorsToBytes_def SECTOR_SIZE_def)
qed

text \<open>
  Claim C4 as stated fails: for the child block without any bit set, 512 is returned and
  no byte is written.
\<close>

theorem coalesceBlock_bytes_written_counterexample:
  "\<exists>n v'. coalesceBlock parent0 child0 0 = Inr (n, v')
          \<and> n \<noteq> writtenBytes v' - writtenBytes parent0"
proof -
  let ?B = "\<lparr> block_id = 0, block_bitmap = map (\<lambda>a. 0) [2048 ..< 2560],
           block_data = Some (map (\<lambda>a. 0) [2560 ..< 3072]),
           block_buffer = Some (map (\<lambda>a. 0) [2048 ..< 3072]) \<rparr> :: block"
  have spb: "sectorsPerBlock child0 = 1"
    by (simp add: sectorsPerBlock_def child0_def SECTOR_SIZE_def)
  have "coalesceLoop parent0 ?B 1 0 None = Inr parent0"
    by (rule coalesceLoop_no_bits) (simp add: mapTestBit_def del: upt_rec_numeral)
  then have "coalesceBlock parent0 child0 0 = Inr (512, parent0)"
    by (simp add: coalesceBlock_def child0_block spb del: upt_rec_numeral)
  then show ?thesis by simp
qed

lemma child2_block:
  "readBlock child2 0 False =
     Inr \<lparr> block_id = 0, block_bitmap = map (bytes (disk child2)) [2048 ..< 2560],
           block_data = Some (map (bytes (disk child2)) [2560 ..< 3584]),
           block_buffer = Some (map (bytes (disk child2)) [2048 ..< 3584]) \<rparr>"
  by (simp add: readBlock_def getBatEntry_def readUInt32BE_def child2_def BLOCK_UNUSED_def
        vread_in_range sectorsToBytes_def SECTOR_SIZE_def fullBlockSize_def bitmapSize_def
        sectorsOfBitmap_def sectorsPerBlock_def sectorsRoundUpNoZero_def take_map drop_map
      del: upt_rec_numeral)

text \<open>
  Claim C3 at a parent that lacks the block: the child holds block 0 with sector 0 set, the
  run \<open>[0, 1)\<close> is not the whole block, so this VHD's bitmap is read first, and that read
  throws "no such block"; nothing is written.
\<close>

theorem coalesceBlock_absent_parent_block_fails:
  "containsBlock child2 0 = Inr True \<and> containsBlock parent2 0 = Inr False
   \<and> coalesceBlock parent2 child2 0 = Inl (NoSuchBlock 0)"
proof -
  let ?bm = "map (bytes (disk child2)) [2048 ..< 2560]"
  let ?B = "\<lparr> block_id = 0, block_bitmap = ?bm,
           block_data = Some (map (bytes (disk child2)) [2560 ..< 3584]),
           block_buffer = Some (map (bytes (disk child2)) [2048 ..< 3584]) \<rparr> :: block"
  have spb: "sectorsPerBlock child2 = 2"
    by (simp add: sectorsPerBlock_def child2_def SECTOR_SIZE_def)
  have t0: "mapTestBit ?bm 0"
    by (simp add: mapTestBit_def child2_def del: upt_rec_numeral)
  have t1: "\<not> mapTestBit ?bm 1"
    by (simp add: mapTestBit_def child2_def del: upt_rec_numeral)
  have cc: "countChanged ?bm 2 (Suc 0) = 1"
    using t1 by (subst countChanged.simps) simp
  have pr: "readBlock parent2 0 True = Inl (NoSuchBlock 0)"
    by (simp add: readBlock_def getBatEntry_def readUInt32BE_def parent2_def BLOCK_UNUSED_def)
  have "coalesceLoop parent2 ?B 2 0 None = Inl (NoSuchBlock 0)"
    by (subst coalesceLoop.simps) (simp add: t0 cc pr coalesceRun_def del: upt_rec_numeral)
  then have "coalesceBlock parent2 child2 0 = Inl (NoSuchBlock 0)"
    by (simp add: coalesceBlock_def child2_block spb del: upt_rec_numeral)
  moreover have "containsBlock child2 0 = Inr True"
    by (simp add: containsBlock_def getBatEntry_def readUInt32BE_def child2_def BLOCK_UNUSED_def)
  moreover have "containsBlock parent2 0 = Inr False"
    by (simp add: containsBlock_def getBatEntry_def readUInt32BE_def parent2_def BLOCK_UNUSED_def)
  ultimately show ?thesis by simp
qed

subsection \<open>Writing data\<close>

lemma parent0_geometry:
  "sectorsPerBlock parent0 = 1" "sectorsOfBitmap parent0 = 1" "bitmapSize parent0 = 512"
  "fullBlockSize parent0 = 1024" "batSize parent0 = 512"
  by (simp_all add: sectorsPerBlock_def sectorsOfBitmap_def bitmapSize_def fullBlockSize_def
        batSize_def computeBatSize_def sectorsToBytes_def sectorsRoundUpNoZero_def
        SECTOR_SIZE_def parent0_def vhd1_def)

lemma replicate_8: "replicate 8 x = [x, x, x, x, x, x, x, x]"
  by (simp add: eval_nat_numeral)

lemma parent0_entries:
  "getBatEntry parent0 0 = Inr BLOCK_UNUSED" "getBatEntry parent0 (Suc 0) = Inr BLOCK_UNUSED"
  by (simp_all add: getBatEntry_def readUInt32BE_def parent0_def BLOCK_UNUSED_def)

lemma parent0_endOfData: "getEndOfData parent0 = Inr 2048"
proof -
  have "getEndOfHeaders parent0 = Inr 2048"
    by (simp add: getEndOfHeaders_def parent0_geometry PARENT_LOCATOR_ENTRIES_def
          FOOTER_SIZE_def HEADER_SIZE_def PLATFORM_NONE_def)
       (simp add: parent0_def vhd1_def no_locator_def replicate_8)
  moreover have "maxTableEntries (vheader parent0) = 1"
    by (simp add: parent0_def vhd1_def)
  ultimately show ?thesis
    by (simp add: getEndOfData_def parent0_entries sectorsToBytes_def SECTOR_SIZE_def)
qed

text \<open>
  Claim C1 at a VHD of one table entry, its table read from the file, and a write of one
  sector at sector 1, which is block 1: \<open>lastBlock\<close> is 1, \<^verbatim>\<open>ensureBatSize(1)\<close> finds one
  entry and grows nothing, and storing the entry of block 1 in a table of four bytes
  throws.
\<close>

theorem writeData_last_block_not_addressable:
  "maxTableEntries (vheader parent0) = 1
   \<and> ensureBatSize parent0 1 = Inr parent0
   \<and> writeData parent0 1 (replicate 512 170) = Inl RangeError"
proof -
  let ?buf = "replicate 512 170 :: buffer"
  have m: "maxTableEntries (vheader parent0) = 1"
    by (simp add: parent0_def vhd1_def)
  have e: "ensureBatSize parent0 (Suc 0) = Inr parent0"
    by (simp add: ensureBatSize_def m)
  have s: "setBatEntry parent0 (Suc 0) 4 = Inl RangeError"
    by (simp add: setBatEntry_def writeUInt32BE_def parent0_def)
  have c: "createBlock parent0 (Suc 0) = Inl RangeError"
    by (simp add: createBlock_def parent0_entries parent0_endOfData s SECTOR_SIZE_def)
  have w: "writeBlockSectors parent0 blk b e1 None = Inl RangeError" if "block_id blk = Suc 0"
    for blk b e1
    by (simp add: writeBlockSectors_def that parent0_entries c)
  have b: "writeDataBlock parent0 (Suc 0) ?buf (Suc 0) = Inl RangeError"
    by (simp add: writeDataBlock_def Let_def w)
  have r: "[Suc 0 ..< Suc (Suc 0)] = [Suc 0]"
    by (simp add: upt_rec)
  have "writeData parent0 (Suc 0) ?buf = Inl RangeError"
    by (simp add: writeData_def Let_def parent0_geometry SECTOR_SIZE_def e r b)
  with m e show ?thesis by simp
qed

subsection \<open>Growing the block allocation table\<close>




lemma vwrite_fields [simp]:
  "vheader (vwrite v d off) = vheader v" "blockTable (vwrite v d off) = blockTable v"
  "rawFooter (vwrite v d off) = rawFooter v" "packHeader (vwrite v d off) = packHeader v"
  "garbage (vwrite v d off) = garbage v"
  by (simp_all add: vwrite_def)

lemma vwrite_geometry [simp]:
  "fullBlockSize (vwrite v d off) = fullBlockSize v" "batSize (vwrite v d off) = batSize v"
  "bitmapSize (vwrite v d off) = bitmapSize v"
  by (simp_all add: fullBlockSize_def batSize_def bitmapSize_def sectorsOfBitmap_def
        sectorsPerBlock_def)
















































end
